theory Spec2Isabelle
  imports Main
begin

section \<open>The example script \<open>examples/plsqlrecord.js\<close>\<close>

text \<open>
  The script is a linear sequence of calls into the database driver, wrapped in
  \<open>try\<close>/\<open>catch\<close>/\<open>finally\<close>. The driver and the process environment are
  parameters of the model; every call into the driver may resolve or reject, and may
  change the driver's own state. What the script does is observed as a trace: every
  driver call with its outcome, and every line written by \<open>console.log\<close> and
  \<open>console.error\<close>, in program order.
\<close>

subsection \<open>Values\<close>

datatype dbclass = DbObjectClass string

datatype connection = Connection nat

text \<open>
  The JavaScript values the script handles. Numbers are the integers: every number
  literal of the script is one. \<open>Obj\<close> is an object literal with its keys in source
  order, \<open>DbObject\<close> an instance of a class generated by the driver.
\<close>

datatype jsval =
    Undefined
  | Str string
  | Num int
  | BIND_OUT
  | Cls dbclass
  | Arr "jsval list"
  | Obj "(string \<times> jsval) list"
  | DbObject dbclass "(string \<times> jsval) list"

datatype error = Error string | TypeError string

record result =
  outBinds :: jsval

text \<open>Reading a property: \<open>undefined.k\<close> throws, a missing key reads as \<open>undefined\<close>.\<close>

fun get_prop :: "jsval \<Rightarrow> string \<Rightarrow> error + jsval" where
  "get_prop Undefined k = Inl (TypeError (''Cannot read properties of undefined (reading '' @ k @ '')''))"
| "get_prop (Obj fs) k = Inr (case map_of fs k of None \<Rightarrow> Undefined | Some v \<Rightarrow> v)"
| "get_prop (DbObject c fs) k = Inr (case map_of fs k of None \<Rightarrow> Undefined | Some v \<Rightarrow> v)"
| "get_prop v k = Inr Undefined"

text \<open>The values a \<open>for ... of\<close> loop visits: arrays and strings are iterable.\<close>

fun iterate :: "jsval \<Rightarrow> error + jsval list" where
  "iterate (Arr xs) = Inr xs"
| "iterate (Str s) = Inr (map (\<lambda>c. Str [c]) s)"
| "iterate v = Inl (TypeError ''result.outBinds is not iterable'')"

subsection \<open>The driver and the trace\<close>

text \<open>
  The driver is external: a record of its operations, each a function of the driver's
  state that returns the outcome (\<open>Inl\<close> a rejection) and the next state.
\<close>

record 'st driver =
  initOracleClient :: "jsval \<Rightarrow> 'st \<Rightarrow> (error + unit) \<times> 'st"
  getConnection :: "jsval \<Rightarrow> 'st \<Rightarrow> (error + connection) \<times> 'st"
  execute :: "connection \<Rightarrow> string \<Rightarrow> jsval \<Rightarrow> 'st \<Rightarrow> (error + result) \<times> 'st"
  getDbObjectClass :: "connection \<Rightarrow> string \<Rightarrow> 'st \<Rightarrow> (error + dbclass) \<times> 'st"
  newDbObject :: "dbclass \<Rightarrow> jsval \<Rightarrow> 'st \<Rightarrow> (error + jsval) \<times> 'st"
  executeMany :: "connection \<Rightarrow> string \<Rightarrow> jsval list \<Rightarrow> jsval \<Rightarrow> 'st \<Rightarrow> (error + result) \<times> 'st"
  close :: "connection \<Rightarrow> 'st \<Rightarrow> (error + unit) \<times> 'st"

datatype call =
    InitOracleClient jsval
  | GetConnection jsval
  | Execute connection string jsval
  | GetDbObjectClass connection string
  | New dbclass jsval
  | ExecuteMany connection string "jsval list" jsval
  | Close connection

datatype event =
    Call call "error option"
  | Log jsval
  | LogError error

text \<open>
  The state of a run: the driver's state, the trace so far, and the local variable
  \<open>connection\<close> of \<open>run\<close>, which the \<open>finally\<close> block reads (\<open>None\<close> is
  \<open>undefined\<close>).
\<close>

record 'st world =
  drv :: 'st
  trace :: "event list"
  connection :: "connection option"

type_synonym ('st, 'a) js = "'st world \<Rightarrow> (error + 'a) \<times> 'st world"

definition ret :: "'a \<Rightarrow> ('st, 'a) js" where
  "ret x w = (Inr x, w)"

definition lift :: "error + 'a \<Rightarrow> ('st, 'a) js" where
  "lift r w = (r, w)"

definition bnd :: "('st, 'a) js \<Rightarrow> ('a \<Rightarrow> ('st, 'b) js) \<Rightarrow> ('st, 'b) js" where
  "bnd m f w = (case m w of (Inl e, w') \<Rightarrow> (Inl e, w') | (Inr x, w') \<Rightarrow> f x w')"

definition try_catch :: "('st, 'a) js \<Rightarrow> (error \<Rightarrow> ('st, 'a) js) \<Rightarrow> ('st, 'a) js" where
  "try_catch m h w = (case m w of (Inl e, w') \<Rightarrow> h e w' | (Inr x, w') \<Rightarrow> (Inr x, w'))"

text \<open>
  \<open>finally\<close>: the block runs whatever the outcome of the body; the body's outcome
  stands unless the block itself throws.
\<close>

definition try_finally :: "('st, 'a) js \<Rightarrow> ('st, unit) js \<Rightarrow> ('st, 'a) js" where
  "try_finally m f w =
     (case m w of (r, w') \<Rightarrow>
        (case f w' of (Inl e, w'') \<Rightarrow> (Inl e, w'') | (Inr u, w'') \<Rightarrow> (r, w'')))"

primrec for_of :: "'a list \<Rightarrow> ('a \<Rightarrow> ('st, unit) js) \<Rightarrow> ('st, unit) js" where
  "for_of [] f = ret ()"
| "for_of (x # xs) f = bnd (f x) (\<lambda>u. for_of xs f)"

definition emit :: "event \<Rightarrow> ('st, unit) js" where
  "emit ev w = (Inr (), w\<lparr>trace := trace w @ [ev]\<rparr>)"

definition console_log :: "jsval \<Rightarrow> ('st, unit) js" where
  "console_log v = emit (Log v)"

definition console_error :: "error \<Rightarrow> ('st, unit) js" where
  "console_error e = emit (LogError e)"

definition outcome :: "error + 'a \<Rightarrow> error option" where
  "outcome r = (case r of Inl e \<Rightarrow> Some e | Inr x \<Rightarrow> None)"

definition call_driver :: "call \<Rightarrow> ('st \<Rightarrow> (error + 'a) \<times> 'st) \<Rightarrow> ('st, 'a) js" where
  "call_driver c f w =
     (case f (drv w) of (r, st') \<Rightarrow>
        (r, w\<lparr>drv := st', trace := trace w @ [Call c (outcome r)]\<rparr>))"

definition oracledb_initOracleClient :: "'st driver \<Rightarrow> jsval \<Rightarrow> ('st, unit) js" where
  "oracledb_initOracleClient d opts = call_driver (InitOracleClient opts) (initOracleClient d opts)"

definition oracledb_getConnection :: "'st driver \<Rightarrow> jsval \<Rightarrow> ('st, connection) js" where
  "oracledb_getConnection d cfg = call_driver (GetConnection cfg) (getConnection d cfg)"

definition connection_execute :: "'st driver \<Rightarrow> connection \<Rightarrow> string \<Rightarrow> jsval \<Rightarrow> ('st, result) js" where
  "connection_execute d c sql binds = call_driver (Execute c sql binds) (execute d c sql binds)"

definition connection_getDbObjectClass :: "'st driver \<Rightarrow> connection \<Rightarrow> string \<Rightarrow> ('st, dbclass) js" where
  "connection_getDbObjectClass d c n = call_driver (GetDbObjectClass c n) (getDbObjectClass d c n)"

definition new :: "'st driver \<Rightarrow> dbclass \<Rightarrow> jsval \<Rightarrow> ('st, jsval) js" where
  "new d k v = call_driver (New k v) (newDbObject d k v)"

definition connection_executeMany ::
  "'st driver \<Rightarrow> connection \<Rightarrow> string \<Rightarrow> jsval list \<Rightarrow> jsval \<Rightarrow> ('st, result) js" where
  "connection_executeMany d c sql rows opts =
     call_driver (ExecuteMany c sql rows opts) (executeMany d c sql rows opts)"

definition connection_close :: "'st driver \<Rightarrow> connection \<Rightarrow> ('st, unit) js" where
  "connection_close d c = call_driver (Close c) (close d c)"

subsection \<open>Module level: locating the client libraries (lines 41 to 49)\<close>

record env =
  platform :: string
  HOME :: "string option"
  existsSync :: "string \<Rightarrow> bool"
  dbConfig :: jsval

text \<open>\<open>process.env.HOME + '/Downloads/...'\<close>: an unset variable concatenates as the text \<open>undefined\<close>.\<close>

definition libPath :: "env \<Rightarrow> string option" where
  "libPath e =
     (if platform e = ''win32'' then
        Some (''C:'' @ [CHR 0x5C] @ ''oracle'' @ [CHR 0x5C] @ ''instantclient_19_12'')
      else if platform e = ''darwin'' then
        Some ((case HOME e of None \<Rightarrow> ''undefined'' | Some h \<Rightarrow> h) @ ''/Downloads/instantclient_19_8'')
      else None)"

text \<open>\<open>libPath && fs.existsSync(libPath)\<close>: \<open>undefined\<close> and the empty string are falsy.\<close>

definition load_client :: "env \<Rightarrow> 'st driver \<Rightarrow> ('st, unit) js" where
  "load_client e d =
     (case libPath e of
        None \<Rightarrow> ret ()
      | Some p \<Rightarrow>
          if p \<noteq> [] \<and> existsSync e p
          then oracledb_initOracleClient d (Obj [(''libDir'', Str p)])
          else ret ())"

subsection \<open>The function \<open>run\<close> (lines 51 to 165)\<close>

definition plsql :: string where
  "plsql = ''CALL rectest.myproc(:inbv, :outbv)''"

definition stmts :: "string list" where
  "stmts =
     [''CREATE OR REPLACE PACKAGE rectest AS'' @ [CHR 0x0A] @
      ''         TYPE rectype IS RECORD (name VARCHAR2(40), pos NUMBER);'' @ [CHR 0x0A] @
      ''         PROCEDURE myproc (p_in IN rectype, p_out OUT rectype);'' @ [CHR 0x0A] @
      ''       END rectest;'',
      ''CREATE OR REPLACE PACKAGE BODY rectest AS'' @ [CHR 0x0A] @
      ''         PROCEDURE myproc (p_in IN rectype, p_out OUT rectype) AS'' @ [CHR 0x0A] @
      ''         BEGIN'' @ [CHR 0x0A] @
      ''           p_out := p_in;'' @ [CHR 0x0A] @
      ''           p_out.pos := p_out.pos * 2;'' @ [CHR 0x0A] @
      ''         END;'' @ [CHR 0x0A] @
      ''       END rectest;'']"

text \<open>Lines 80 to 86: each statement in its own \<open>try\<close>/\<open>catch\<close>.\<close>

definition create_package :: "'st driver \<Rightarrow> connection \<Rightarrow> ('st, unit) js" where
  "create_package d c =
     for_of stmts (\<lambda>s.
       try_catch (bnd (connection_execute d c s Undefined) (\<lambda>r. ret ())) console_error)"

definition out_bind :: "dbclass \<Rightarrow> jsval" where
  "out_bind k = Obj [(''type'', Cls k), (''dir'', BIND_OUT)]"

text \<open>\<open>console.log(result.outBinds.outbv)\<close>: the argument is read before the call.\<close>

definition log_outbv :: "result \<Rightarrow> ('st, unit) js" where
  "log_outbv r = bnd (lift (get_prop (outBinds r) ''outbv'')) console_log"

text \<open>Lines 101 to 110, for the record value \<open>v\<close>.\<close>

definition using_constructor :: "'st driver \<Rightarrow> connection \<Rightarrow> dbclass \<Rightarrow> jsval \<Rightarrow> ('st, unit) js" where
  "using_constructor d c k v =
     bnd (console_log (Str ''Using the constructor to create an object:'')) (\<lambda>u.
     bnd (new d k v) (\<lambda>obj.
     bnd (connection_execute d c plsql (Obj [(''inbv'', obj), (''outbv'', out_bind k)])) log_outbv))"

text \<open>Lines 112 to 120.\<close>

definition binding_values :: "'st driver \<Rightarrow> connection \<Rightarrow> dbclass \<Rightarrow> jsval \<Rightarrow> ('st, unit) js" where
  "binding_values d c k v =
     bnd (console_log (Str (CHR 0x0A # ''Binding the record values directly:''))) (\<lambda>u.
     bnd (connection_execute d c plsql
            (Obj [(''inbv'', Obj [(''type'', Cls k), (''val'', v)]), (''outbv'', out_bind k)]))
         log_outbv)"

text \<open>Lines 122 to 129.\<close>

definition using_type_name :: "'st driver \<Rightarrow> connection \<Rightarrow> dbclass \<Rightarrow> jsval \<Rightarrow> ('st, unit) js" where
  "using_type_name d c k v =
     bnd (connection_execute d c plsql
            (Obj [(''inbv'', Obj [(''type'', Str ''RECTEST.RECTYPE''), (''val'', v)]),
                  (''outbv'', out_bind k)]))
         log_outbv"

text \<open>Lines 135 to 152, for the record values \<open>vs\<close>.\<close>

definition with_executeMany :: "'st driver \<Rightarrow> connection \<Rightarrow> dbclass \<Rightarrow> jsval list \<Rightarrow> ('st, unit) js" where
  "with_executeMany d c k vs =
     bnd (console_log (Str (CHR 0x0A # ''Example with executeMany():''))) (\<lambda>u.
     bnd (connection_executeMany d c plsql
            (map (\<lambda>v. Obj [(''inbv'', v)]) vs)
            (Obj [(''bindDefs'',
                   Obj [(''inbv'', Obj [(''type'', Cls k)]), (''outbv'', out_bind k)])])) (\<lambda>r.
     bnd (lift (iterate (outBinds r))) (\<lambda>bs.
     for_of bs (\<lambda>b. bnd (lift (get_prop b ''outbv'')) console_log))))"

definition rec_value :: "string \<Rightarrow> int \<Rightarrow> jsval" where
  "rec_value n p = Obj [(''NAME'', Str n), (''POS'', Num p)]"

text \<open>The four call sequences, lines 101 to 152, with the class \<open>k\<close> of line 93.\<close>

definition call_sequences :: "'st driver \<Rightarrow> connection \<Rightarrow> dbclass \<Rightarrow> ('st, unit) js" where
  "call_sequences d c k =
     bnd (using_constructor d c k (rec_value ''Ship'' 12)) (\<lambda>u.
     bnd (binding_values d c k (rec_value ''Plane'' 34)) (\<lambda>u.
     bnd (using_type_name d c k (rec_value ''Car'' 56)) (\<lambda>u.
     with_executeMany d c k [rec_value ''Train'' 78, rec_value ''Bike'' 83])))"

text \<open>The body of the \<open>try\<close> block, lines 59 to 152.\<close>

definition body :: "jsval \<Rightarrow> 'st driver \<Rightarrow> ('st, unit) js" where
  "body cfg d =
     bnd (oracledb_getConnection d cfg) (\<lambda>c.
     bnd (\<lambda>w. (Inr (), w\<lparr>connection := Some c\<rparr>)) (\<lambda>u.
     bnd (create_package d c) (\<lambda>u.
     bnd (connection_getDbObjectClass d c ''RECTEST.RECTYPE'') (call_sequences d c))))"

text \<open>The \<open>finally\<close> block, lines 157 to 163.\<close>

definition cleanup :: "'st driver \<Rightarrow> ('st, unit) js" where
  "cleanup d w =
     (case connection w of
        None \<Rightarrow> ret () w
      | Some c \<Rightarrow> try_catch (connection_close d c) console_error w)"

definition run :: "jsval \<Rightarrow> 'st driver \<Rightarrow> ('st, unit) js" where
  "run cfg d =
     bnd (\<lambda>w. (Inr (), w\<lparr>connection := None\<rparr>)) (\<lambda>u.
     try_finally (try_catch (body cfg d) console_error) (cleanup d))"

text \<open>The whole script: the module-level code, then the call \<open>run()\<close> of line 167.\<close>

definition script :: "env \<Rightarrow> 'st driver \<Rightarrow> ('st, unit) js" where
  "script e d = bnd (load_client e d) (\<lambda>u. run (dbConfig e) d)"

definition start :: "'st \<Rightarrow> 'st world" where
  "start st = \<lparr>drv = st, trace = [], connection = None\<rparr>"

subsection \<open>Reading a trace\<close>

definition run_trace :: "jsval \<Rightarrow> 'st driver \<Rightarrow> 'st \<Rightarrow> event list" where
  "run_trace cfg d st = trace (snd (run cfg d (start st)))"

definition script_trace :: "env \<Rightarrow> 'st driver \<Rightarrow> 'st \<Rightarrow> event list" where
  "script_trace e d st = trace (snd (script e d (start st)))"

text \<open>What \<open>console.log\<close> printed, in order.\<close>

fun stdout :: "event list \<Rightarrow> jsval list" where
  "stdout [] = []"
| "stdout (Log v # evs) = v # stdout evs"
| "stdout (ev # evs) = stdout evs"

text \<open>What \<open>console.error\<close> printed, in order.\<close>

fun stderr :: "event list \<Rightarrow> error list" where
  "stderr [] = []"
| "stderr (LogError e # evs) = e # stderr evs"
| "stderr (ev # evs) = stderr evs"

text \<open>The driver calls that were rejected, in order.\<close>

fun rejected_calls :: "event list \<Rightarrow> call list" where
  "rejected_calls [] = []"
| "rejected_calls (Call k (Some e) # evs) = k # rejected_calls evs"
| "rejected_calls (ev # evs) = rejected_calls evs"

text \<open>The connections \<open>close\<close> was called on, in order.\<close>

fun closed_connections :: "event list \<Rightarrow> connection list" where
  "closed_connections [] = []"
| "closed_connections (Call (Close c) r # evs) = c # closed_connections evs"
| "closed_connections (ev # evs) = closed_connections evs"

text \<open>The option records \<open>initOracleClient\<close> was called with, in order.\<close>

fun client_inits :: "event list \<Rightarrow> jsval list" where
  "client_inits [] = []"
| "client_inits (Call (InitOracleClient opts) r # evs) = opts # client_inits evs"
| "client_inits (ev # evs) = client_inits evs"

text \<open>
  The calls of the four call sequences: the constructor, \<open>execute\<close> of the
  procedure call and \<open>executeMany\<close>.
\<close>

fun procedure_calls :: "event list \<Rightarrow> call list" where
  "procedure_calls [] = []"
| "procedure_calls (Call (New k v) r # evs) = New k v # procedure_calls evs"
| "procedure_calls (Call (Execute c sql b) r # evs) =
     (if sql = plsql then Execute c sql b # procedure_calls evs else procedure_calls evs)"
| "procedure_calls (Call (ExecuteMany c sql rows opts) r # evs) =
     ExecuteMany c sql rows opts # procedure_calls evs"
| "procedure_calls (ev # evs) = procedure_calls evs"

text \<open>Every rejected driver call is followed at once by \<open>console.error\<close> of its error.\<close>

fun errors_logged :: "event list \<Rightarrow> bool" where
  "errors_logged [] = True"
| "errors_logged (Call c (Some e) # LogError e' # evs) = (e' = e \<and> errors_logged evs)"
| "errors_logged (Call c (Some e) # evs) = False"
| "errors_logged (ev # evs) = errors_logged evs"

text \<open>A call inside its own \<open>try\<close>/\<open>catch\<close>: the call, and its error logged if it rejects.\<close>

definition caught :: "call \<Rightarrow> error option \<Rightarrow> event list" where
  "caught k r = Call k r # (case r of None \<Rightarrow> [] | Some e \<Rightarrow> [LogError e])"

text \<open>The events the four call sequences can add before one of them throws.\<close>

fun sequence_event :: "event \<Rightarrow> bool" where
  "sequence_event (Log v) = True"
| "sequence_event (Call (New k v) r) = True"
| "sequence_event (Call (Execute c sql b) r) = (sql = plsql)"
| "sequence_event (Call (ExecuteMany c sql rows opts) r) = True"
| "sequence_event ev = False"

text \<open>
  A computation keeps the variable \<open>connection\<close>, adds only events of the kind \<open>P\<close>,
  and leaves no rejected call behind but the one it throws.
\<close>

definition steps :: "(event \<Rightarrow> bool) \<Rightarrow> ('st, 'a) js \<Rightarrow> bool" where
  "steps P m =
     (\<forall>w. connection (snd (m w)) = connection w \<and>
        (\<exists>evs. trace (snd (m w)) = trace w @ evs \<and> list_all P evs \<and>
           errors_logged (evs @ (case fst (m w) of Inl e \<Rightarrow> [LogError e] | Inr x \<Rightarrow> []))))"

subsection \<open>A stub of the driver\<close>

text \<open>
  The PL/SQL of lines 66 to 77: the record type, and the procedure that copies its
  input and doubles \<open>pos\<close>.
\<close>

record rectype =
  name :: string
  pos :: int

definition myproc :: "rectype \<Rightarrow> rectype" where
  "myproc p_in = (let p_out = p_in in p_out\<lparr>pos := pos p_out * 2\<rparr>)"

text \<open>
  Modelled from the spec: the driver's binding of records, which is not part of the
  script. A record is bound from an instance, from a value mapping given with a type
  (\<open>{type, val}\<close>), or from a plain value mapping; the fields are \<open>NAME\<close>, a string, and
  \<open>POS\<close>, a number.
\<close>

definition fields_rectype :: "(string \<times> jsval) list \<Rightarrow> rectype option" where
  "fields_rectype fs =
     (case (map_of fs ''NAME'', map_of fs ''POS'') of
        (Some (Str n), Some (Num p)) \<Rightarrow> Some \<lparr>name = n, pos = p\<rparr>
      | _ \<Rightarrow> None)"

fun bound_record :: "jsval \<Rightarrow> rectype option" where
  "bound_record (DbObject k fs) = fields_rectype fs"
| "bound_record (Obj fs) =
     (case map_of fs ''val'' of Some (Obj vs) \<Rightarrow> fields_rectype vs | _ \<Rightarrow> fields_rectype fs)"
| "bound_record v = None"

text \<open>Modelled from the spec: the class of an output bind, \<open>{type, dir}\<close>.\<close>

fun bound_class :: "jsval \<Rightarrow> dbclass option" where
  "bound_class (Obj fs) = (case map_of fs ''type'' of Some (Cls k) \<Rightarrow> Some k | _ \<Rightarrow> None)"
| "bound_class v = None"

text \<open>Modelled from the spec: the instance the driver returns for a record.\<close>

definition instance_of :: "dbclass \<Rightarrow> rectype \<Rightarrow> jsval" where
  "instance_of k r = DbObject k [(''NAME'', Str (name r)), (''POS'', Num (pos r))]"

text \<open>
  Modelled from the spec: the remote call, which binds \<open>inbv\<close>, applies \<open>myproc\<close> and
  binds the result to \<open>outbv\<close>.
\<close>

definition call_myproc :: "jsval \<Rightarrow> jsval \<Rightarrow> jsval option" where
  "call_myproc inbv outbv =
     (case (bound_record inbv, bound_class outbv) of
        (Some r, Some k) \<Rightarrow> Some (Obj [(''outbv'', instance_of k (myproc r))])
      | _ \<Rightarrow> None)"

definition read_prop :: "jsval \<Rightarrow> string \<Rightarrow> jsval" where
  "read_prop v k = (case get_prop v k of Inl e \<Rightarrow> Undefined | Inr x \<Rightarrow> x)"

text \<open>
  Modelled from the spec: \<open>execute\<close> of the stub. The procedure call returns its
  output binds; any other statement returns none.
\<close>

definition stub_execute :: "string \<Rightarrow> jsval \<Rightarrow> error + result" where
  "stub_execute sql binds =
     (if sql = plsql then
        (case call_myproc (read_prop binds ''inbv'') (read_prop binds ''outbv'') of
           Some out \<Rightarrow> Inr \<lparr>outBinds = out\<rparr>
         | None \<Rightarrow> Inl (Error ''invalid bind''))
      else Inr \<lparr>outBinds = Undefined\<rparr>)"

text \<open>
  Modelled from the spec: \<open>executeMany\<close> of the stub, one row of output binds for each
  row of input binds, in the order of the rows.
\<close>

definition stub_executeMany :: "string \<Rightarrow> jsval list \<Rightarrow> jsval \<Rightarrow> error + result" where
  "stub_executeMany sql rows opts =
     (let outs = map (\<lambda>row. call_myproc (read_prop row ''inbv'')
                                (read_prop (read_prop opts ''bindDefs'') ''outbv'')) rows
      in if sql = plsql \<and> list_all (\<lambda>out. out \<noteq> None) outs
         then Inr \<lparr>outBinds = Arr (map the outs)\<rparr>
         else Inl (Error ''invalid bind''))"

text \<open>Modelled from the spec: the constructor of a generated class.\<close>

definition stub_new :: "dbclass \<Rightarrow> jsval \<Rightarrow> error + jsval" where
  "stub_new k v = (case v of Obj fs \<Rightarrow> Inr (DbObject k fs) | _ \<Rightarrow> Inl (Error ''invalid value''))"

text \<open>
  Modelled from the spec: the stubbed driver of the spec's testable properties. Its
  state counts the calls made so far; the calls whose index is in \<open>fails\<close> are
  rejected, every other call resolves.
\<close>

definition inject :: "nat list \<Rightarrow> string \<Rightarrow> error + 'a \<Rightarrow> nat \<Rightarrow> (error + 'a) \<times> nat" where
  "inject fails msg r i = (if i \<in> set fails then Inl (Error msg) else r, Suc i)"

definition mock :: "nat list \<Rightarrow> nat driver" where
  "mock fails =
     \<lparr>initOracleClient = (\<lambda>opts. inject fails ''initOracleClient'' (Inr ())),
      getConnection = (\<lambda>cfg. inject fails ''getConnection'' (Inr (Connection 1))),
      execute = (\<lambda>c sql binds. inject fails ''execute'' (stub_execute sql binds)),
      getDbObjectClass = (\<lambda>c n. inject fails ''getDbObjectClass'' (Inr (DbObjectClass n))),
      newDbObject = (\<lambda>k v. inject fails ''new'' (stub_new k v)),
      executeMany = (\<lambda>c sql rows opts. inject fails ''executeMany'' (stub_executeMany sql rows opts)),
      close = (\<lambda>c. inject fails ''close'' (Inr ()))\<rparr>"

text \<open>
  A driver that resolves every call as the stub does, but whose \<open>executeMany\<close>
  resolves with an empty array of output rows.
\<close>

definition no_rows :: "nat driver" where
  "no_rows =
     \<lparr>initOracleClient = (\<lambda>opts i. (Inr (), Suc i)),
      getConnection = (\<lambda>cfg i. (Inr (Connection 1), Suc i)),
      execute = (\<lambda>c sql binds i. (stub_execute sql binds, Suc i)),
      getDbObjectClass = (\<lambda>c n i. (Inr (DbObjectClass n), Suc i)),
      newDbObject = (\<lambda>k v i. (stub_new k v, Suc i)),
      executeMany = (\<lambda>c sql rows opts i. (Inr \<lparr>outBinds = Arr []\<rparr>, Suc i)),
      close = (\<lambda>c i. (Inr (), Suc i))\<rparr>"

section \<open>How a run unfolds\<close>

subsection \<open>Computations and the events they add\<close>

lemma errors_logged_append:
  "errors_logged xs \<Longrightarrow> errors_logged ys \<Longrightarrow> errors_logged (xs @ ys)"
  by (induction xs rule: errors_logged.induct) auto

lemma steps_ret: "steps P (ret x)"
  by (simp add: steps_def ret_def)

lemma steps_lift: "steps P (lift r)"
  by (simp add: steps_def lift_def split: sum.splits)

lemma steps_console_log: "P (Log v) \<Longrightarrow> steps P (console_log v)"
  by (simp add: steps_def console_log_def emit_def)

lemma steps_call_driver: "(\<And>r. P (Call c r)) \<Longrightarrow> steps P (call_driver c f)"
  by (simp add: steps_def call_driver_def outcome_def split: prod.splits sum.splits)

lemma steps_bnd:
  assumes "steps P m" and "\<And>x. steps P (f x)"
  shows "steps P (bnd m f)"
  unfolding steps_def
proof
  fix w
  obtain r w1 where m: "m w = (r, w1)" by (cases "m w")
  from assms(1) obtain evs where 1: "connection w1 = connection w" "trace w1 = trace w @ evs"
      "list_all P evs" "errors_logged (evs @ (case r of Inl e \<Rightarrow> [LogError e] | Inr x \<Rightarrow> []))"
    unfolding steps_def using m by (metis fst_conv snd_conv)
  show "connection (snd (bnd m f w)) = connection w \<and>
        (\<exists>evs. trace (snd (bnd m f w)) = trace w @ evs \<and> list_all P evs \<and>
           errors_logged (evs @ (case fst (bnd m f w) of Inl e \<Rightarrow> [LogError e] | Inr x \<Rightarrow> [])))"
  proof (cases r)
    case (Inl e)
    then show ?thesis using m 1 by (simp add: bnd_def)
  next
    case (Inr x)
    obtain r2 w2 where f: "f x w1 = (r2, w2)" by (cases "f x w1")
    from assms(2)[of x] obtain evs2 where 2: "connection w2 = connection w1" "trace w2 = trace w1 @ evs2"
      "list_all P evs2" "errors_logged (evs2 @ (case r2 of Inl e \<Rightarrow> [LogError e] | Inr x \<Rightarrow> []))"
      unfolding steps_def using f by (metis fst_conv snd_conv)
    have "errors_logged (evs @ evs2 @ (case r2 of Inl e \<Rightarrow> [LogError e] | Inr x \<Rightarrow> []))"
      using 1(4) 2(4) Inr by (simp add: errors_logged_append)
    then show ?thesis using m f Inr 1 2 by (simp add: bnd_def)
  qed
qed

lemma steps_for_of: "(\<And>x. steps P (f x)) \<Longrightarrow> steps P (for_of xs f)"
  by (induction xs) (simp_all add: steps_ret steps_bnd)

lemma steps_try_catch_log:
  assumes "steps P m" and "\<And>e. P (LogError e)"
  shows "steps P (try_catch m console_error)"
  using assms unfolding steps_def
  apply (intro allI)
  subgoal for w
    apply (erule allE[of _ w])
    apply (cases "m w")
    apply (auto simp: try_catch_def console_error_def emit_def split: sum.splits)
    done
  done


lemma steps_weaken: "steps P m \<Longrightarrow> (\<And>ev. P ev \<Longrightarrow> Q ev) \<Longrightarrow> steps Q m"
  unfolding steps_def by (metis (mono_tags, lifting) list_all_iff)

lemma steps_log_outbv: "steps sequence_event (log_outbv r)"
  unfolding log_outbv_def by (intro steps_bnd steps_lift steps_console_log) simp

lemma steps_connection_execute: "steps sequence_event (connection_execute d c plsql b)"
  unfolding connection_execute_def by (rule steps_call_driver) simp

lemma steps_using_constructor: "steps sequence_event (using_constructor d c k v)"
  unfolding using_constructor_def new_def
  by (intro steps_bnd steps_console_log steps_call_driver steps_connection_execute steps_log_outbv) simp_all

lemma steps_binding_values: "steps sequence_event (binding_values d c k v)"
  unfolding binding_values_def
  by (intro steps_bnd steps_console_log steps_connection_execute steps_log_outbv) simp_all

lemma steps_using_type_name: "steps sequence_event (using_type_name d c k v)"
  unfolding using_type_name_def
  by (intro steps_bnd steps_connection_execute steps_log_outbv)

lemma steps_with_executeMany: "steps sequence_event (with_executeMany d c k vs)"
  unfolding with_executeMany_def connection_executeMany_def
  by (intro steps_bnd steps_console_log steps_call_driver steps_lift steps_for_of) simp_all

lemma steps_call_sequences: "steps sequence_event (call_sequences d c k)"
  unfolding call_sequences_def
  by (intro steps_bnd steps_using_constructor steps_binding_values steps_using_type_name
      steps_with_executeMany)

lemma try_ddl:
  "try_catch (bnd (connection_execute d c s Undefined) (\<lambda>r. ret ())) console_error w =
     (Inr (), w\<lparr>drv := snd (execute d c s Undefined (drv w)),
               trace := trace w @ caught (Execute c s Undefined)
                          (outcome (fst (execute d c s Undefined (drv w))))\<rparr>)"
  by (simp add: try_catch_def bnd_def connection_execute_def call_driver_def ret_def
      console_error_def emit_def caught_def outcome_def split: prod.splits sum.splits)

lemma stmts_two: "stmts = [stmts ! 0, stmts ! 1]"
  by (simp add: stmts_def)

lemma create_package_run:
  "\<exists>st' r2. create_package d c w =
     (Inr (), w\<lparr>drv := st',
               trace := trace w @
                 caught (Execute c (stmts ! 0) Undefined)
                   (outcome (fst (execute d c (stmts ! 0) Undefined (drv w)))) @
                 caught (Execute c (stmts ! 1) Undefined) r2\<rparr>)"
proof -
  have "create_package d c w =
     for_of [stmts ! 0, stmts ! 1] (\<lambda>s.
       try_catch (bnd (connection_execute d c s Undefined) (\<lambda>r. ret ())) console_error) w"
    unfolding create_package_def using stmts_two by metis
  then have "create_package d c w =
     (Inr (), w\<lparr>drv := snd (execute d c (stmts ! 1) Undefined
                              (snd (execute d c (stmts ! 0) Undefined (drv w)))),
               trace := trace w @
                 caught (Execute c (stmts ! 0) Undefined)
                   (outcome (fst (execute d c (stmts ! 0) Undefined (drv w)))) @
                 caught (Execute c (stmts ! 1) Undefined)
                   (outcome (fst (execute d c (stmts ! 1) Undefined
                              (snd (execute d c (stmts ! 0) Undefined (drv w))))))\<rparr>)"
    by (simp add: bnd_def try_ddl ret_def)
  then show ?thesis by blast
qed


lemma cleanup_run:
  "connection w = Some c \<Longrightarrow>
   cleanup d w = (Inr (), w\<lparr>drv := snd (close d c (drv w)),
       trace := trace w @ caught (Close c) (outcome (fst (close d c (drv w))))\<rparr>)"
  by (simp add: cleanup_def try_catch_def connection_close_def call_driver_def console_error_def
      emit_def caught_def outcome_def split: prod.splits sum.splits)

lemma try_catch_sequences:
  "\<exists>w' main. try_catch (call_sequences d c k) console_error w = (Inr (), w') \<and>
     connection w' = connection w \<and> trace w' = trace w @ main \<and>
     list_all (\<lambda>ev. sequence_event ev \<or> (\<exists>e. ev = LogError e)) main \<and> errors_logged main \<and>
     (\<forall>e. fst (call_sequences d c k w) = Inl e \<longrightarrow> main \<noteq> [] \<and> last main = LogError e)"
proof -
  obtain r w1 where m: "call_sequences d c k w = (r, w1)"
    by (cases "call_sequences d c k w")
  from steps_call_sequences [of d c k] m obtain evs where
    evs: "connection w1 = connection w" "trace w1 = trace w @ evs" "list_all sequence_event evs"
      "errors_logged (evs @ (case r of Inl e \<Rightarrow> [LogError e] | Inr x \<Rightarrow> []))"
    unfolding steps_def by (metis fst_conv snd_conv)
  have "list_all (\<lambda>ev. sequence_event ev \<or> (\<exists>e. ev = LogError e)) evs"
    using evs(3) by (simp add: list_all_iff)
  with m evs show ?thesis
    by (cases r) (simp_all add: try_catch_def console_error_def emit_def)
qed

lemma run_shape:
  assumes "getConnection d cfg (drv w) = (Inr c, st1)"
  shows "\<exists>w' r2 rk main rc. run cfg d w = (Inr (), w') \<and>
     trace w' = trace w @ Call (GetConnection cfg) None #
       caught (Execute c (stmts ! 0) Undefined)
         (outcome (fst (execute d c (stmts ! 0) Undefined st1))) @
       caught (Execute c (stmts ! 1) Undefined) r2 @
       Call (GetDbObjectClass c ''RECTEST.RECTYPE'') rk # main @ caught (Close c) rc \<and>
     (case rk of
        Some e \<Rightarrow> main = [LogError e]
      | None \<Rightarrow> list_all (\<lambda>ev. sequence_event ev \<or> (\<exists>e. ev = LogError e)) main \<and>
          errors_logged main) \<and>
     (\<forall>e. fst (body cfg d (w\<lparr>connection := None\<rparr>)) = Inl e \<longrightarrow>
        main \<noteq> [] \<and> last main = LogError e)"
proof -
  define w1 where "w1 = w\<lparr>drv := st1,
    trace := trace w @ [Call (GetConnection cfg) None], connection := Some c\<rparr>"
  obtain st3 r2 where cp: "create_package d c w1 =
     (Inr (), w1\<lparr>drv := st3, trace := trace w1 @
        caught (Execute c (stmts ! 0) Undefined)
          (outcome (fst (execute d c (stmts ! 0) Undefined (drv w1)))) @
        caught (Execute c (stmts ! 1) Undefined) r2\<rparr>)"
    using create_package_run [of d c w1] by blast
  define w3 where "w3 = w1\<lparr>drv := st3, trace := trace w1 @
        caught (Execute c (stmts ! 0) Undefined)
          (outcome (fst (execute d c (stmts ! 0) Undefined (drv w1)))) @
        caught (Execute c (stmts ! 1) Undefined) r2\<rparr>"
  obtain rk st4 where gk: "getDbObjectClass d c ''RECTEST.RECTYPE'' st3 = (rk, st4)"
    by (cases "getDbObjectClass d c ''RECTEST.RECTYPE'' st3")
  define w4 where "w4 = w3\<lparr>drv := st4,
    trace := trace w3 @ [Call (GetDbObjectClass c ''RECTEST.RECTYPE'') (outcome rk)]\<rparr>"
  have bd: "body cfg d (w\<lparr>connection := None\<rparr>) =
     (case rk of Inl e \<Rightarrow> (Inl e, w4) | Inr k \<Rightarrow> call_sequences d c k w4)"
    using assms cp gk
    by (simp add: body_def bnd_def oracledb_getConnection_def
        connection_getDbObjectClass_def call_driver_def outcome_def w1_def w3_def w4_def
        split: sum.splits)
  obtain w5 main where body: "try_catch (body cfg d) console_error (w\<lparr>connection := None\<rparr>) = (Inr (), w5)"
    and w5: "connection w5 = Some c" "trace w5 = trace w4 @ main"
    and main: "case outcome rk of
        Some e \<Rightarrow> main = [LogError e]
      | None \<Rightarrow> list_all (\<lambda>ev. sequence_event ev \<or> (\<exists>e. ev = LogError e)) main \<and>
          errors_logged main"
    and thrown: "\<forall>e. fst (body cfg d (w\<lparr>connection := None\<rparr>)) = Inl e \<longrightarrow>
        main \<noteq> [] \<and> last main = LogError e"
  proof (cases rk)
    case (Inl e)
    with bd that [of "w4\<lparr>trace := trace w4 @ [LogError e]\<rparr>" "[LogError e]"] show ?thesis
      by (simp add: try_catch_def console_error_def emit_def outcome_def w4_def w3_def w1_def)
  next
    case (Inr k)
    from try_catch_sequences [of d c k w4] obtain w5 main where
      "try_catch (call_sequences d c k) console_error w4 = (Inr (), w5)"
      "connection w5 = connection w4" "trace w5 = trace w4 @ main"
      "list_all (\<lambda>ev. sequence_event ev \<or> (\<exists>e. ev = LogError e)) main" "errors_logged main"
      "\<forall>e. fst (call_sequences d c k w4) = Inl e \<longrightarrow> main \<noteq> [] \<and> last main = LogError e"
      by blast
    with Inr bd that [of w5 main] show ?thesis
      by (simp add: try_catch_def outcome_def w4_def w3_def w1_def)
  qed
  have "run cfg d w = cleanup d w5"
    using body cleanup_run [OF w5(1), of d]
    by (simp add: run_def bnd_def try_finally_def)
  with cleanup_run [OF w5(1), of d] w5 main thrown show ?thesis
    by (auto simp: w4_def w3_def w1_def)
qed

lemma run_no_connection:
  assumes "getConnection d cfg (drv w) = (Inl e, st1)"
  shows "run cfg d w = (Inr (), w\<lparr>drv := st1,
     trace := trace w @ [Call (GetConnection cfg) (Some e), LogError e], connection := None\<rparr>)"
  using assms
  by (simp add: run_def body_def bnd_def try_finally_def try_catch_def oracledb_getConnection_def
      call_driver_def outcome_def console_error_def emit_def cleanup_def ret_def)

lemma run_returns: "fst (run cfg d w) = Inr ()"
proof (cases "getConnection d cfg (drv w)")
  case (Pair r st1)
  then show ?thesis
    using run_no_connection [of d cfg w _ st1] run_shape [of d cfg w _ st1]
    by (cases r) auto
qed

lemma closed_connections_append:
  "closed_connections (xs @ ys) = closed_connections xs @ closed_connections ys"
  by (induction xs rule: closed_connections.induct) simp_all

lemma client_inits_append: "client_inits (xs @ ys) = client_inits xs @ client_inits ys"
  by (induction xs rule: client_inits.induct) simp_all

lemma procedure_calls_append:
  "procedure_calls (xs @ ys) = procedure_calls xs @ procedure_calls ys"
  by (induction xs rule: procedure_calls.induct) simp_all

lemma stdout_append: "stdout (xs @ ys) = stdout xs @ stdout ys"
  by (induction xs rule: stdout.induct) simp_all

lemma sequence_events_closed:
  "list_all (\<lambda>ev. sequence_event ev \<or> (\<exists>e. ev = LogError e)) evs \<Longrightarrow> closed_connections evs = []"
  by (induction evs rule: closed_connections.induct) auto

lemma sequence_events_inits:
  "list_all (\<lambda>ev. sequence_event ev \<or> (\<exists>e. ev = LogError e)) evs \<Longrightarrow> client_inits evs = []"
  by (induction evs rule: client_inits.induct) auto

lemma sequence_events_getclass:
  "list_all (\<lambda>ev. sequence_event ev \<or> (\<exists>e. ev = LogError e)) evs \<Longrightarrow>
   Call (GetDbObjectClass c n) r \<notin> set evs"
  by (induction evs) auto

lemma sequence_events_close:
  "list_all (\<lambda>ev. sequence_event ev \<or> (\<exists>e. ev = LogError e)) evs \<Longrightarrow>
   Call (Close c) r \<notin> set evs"
  by (induction evs) auto

lemma errors_logged_caught: "errors_logged (caught k r @ evs) = errors_logged evs"
  by (cases r) (simp_all add: caught_def)

lemma errors_logged_mem:
  "errors_logged evs \<Longrightarrow> Call k (Some e) \<in> set evs \<Longrightarrow> LogError e \<in> set evs"
  by (induction evs rule: errors_logged.induct) auto


lemma stmts_not_plsql: "stmts ! 0 \<noteq> plsql" "stmts ! 1 \<noteq> plsql"
  by (simp_all add: stmts_def plsql_def)

lemma run_adds:
  "\<exists>evs. trace (snd (run cfg d w)) = trace w @ evs \<and> client_inits evs = []"
proof (cases "getConnection d cfg (drv w)")
  case (Pair r st1)
  show ?thesis
  proof (cases r)
    case (Inl e)
    with Pair run_no_connection [of d cfg w e st1] show ?thesis by simp
  next
    case (Inr c)
    with Pair run_shape [of d cfg w c st1] obtain w' r2 rk main rc where
      t: "trace (snd (run cfg d w)) = trace w @ Call (GetConnection cfg) None #
       caught (Execute c (stmts ! 0) Undefined)
         (outcome (fst (execute d c (stmts ! 0) Undefined st1))) @
       caught (Execute c (stmts ! 1) Undefined) r2 @
       Call (GetDbObjectClass c ''RECTEST.RECTYPE'') rk # main @ caught (Close c) rc"
      and m: "case rk of
        Some e \<Rightarrow> main = [LogError e]
      | None \<Rightarrow> list_all (\<lambda>ev. sequence_event ev \<or> (\<exists>e. ev = LogError e)) main \<and>
          errors_logged main"
      by auto
    have "client_inits main = []"
      using m by (cases rk) (simp_all add: sequence_events_inits)
    then show ?thesis
      unfolding t by (auto simp: client_inits_append caught_def split: option.splits)
  qed
qed

subsection \<open>The module-level code\<close>

lemma libPath_nonempty: "libPath e = Some p \<Longrightarrow> p \<noteq> []"
  by (auto simp: libPath_def split: if_splits)

lemma libPath_platform: "libPath e \<noteq> None \<longleftrightarrow> platform e = ''win32'' \<or> platform e = ''darwin''"
  by (simp add: libPath_def)

lemma script_trace_cases:
  "\<exists>evs. client_inits evs = [] \<and>
     script_trace e d st =
       (case libPath e of
          None \<Rightarrow> evs
        | Some p \<Rightarrow>
            if existsSync e p
            then Call (InitOracleClient (Obj [(''libDir'', Str p)]))
                   (outcome (fst (initOracleClient d (Obj [(''libDir'', Str p)]) st))) # evs
            else evs)"
proof (cases "libPath e")
  case None
  with run_adds [of "dbConfig e" d "start st"] show ?thesis
    by (auto simp: script_trace_def script_def load_client_def bnd_def ret_def start_def)
next
  case (Some p)
  show ?thesis
  proof (cases "existsSync e p")
    case False
    with Some run_adds [of "dbConfig e" d "start st"] show ?thesis
      by (auto simp: script_trace_def script_def load_client_def bnd_def ret_def start_def)
  next
    case True
    obtain r st1 where i: "initOracleClient d (Obj [(''libDir'', Str p)]) st = (r, st1)"
      by (cases "initOracleClient d (Obj [(''libDir'', Str p)]) st")
    let ?w = "\<lparr>drv = st1,
      trace = [Call (InitOracleClient (Obj [(''libDir'', Str p)])) (outcome r)],
      connection = None\<rparr>"
    show ?thesis
    proof (cases r)
      case (Inl x)
      with Some True i libPath_nonempty [OF Some] show ?thesis
        by (simp add: script_trace_def script_def load_client_def bnd_def start_def
            oracledb_initOracleClient_def call_driver_def)
    next
      case (Inr u)
      with Some True i libPath_nonempty [OF Some] run_adds [of "dbConfig e" d ?w] show ?thesis
        by (auto simp: script_trace_def script_def load_client_def bnd_def start_def
            oracledb_initOracleClient_def call_driver_def)
    qed
  qed
qed

text \<open>
  The module-level call is outside every \<open>try\<close>: the script ends normally unless
  \<open>initOracleClient\<close> itself rejects, and then nothing else is attempted.
\<close>

lemma script_outcome:
  "fst (script e d (start st)) = Inr () \<or>
   (\<exists>opts err. script_trace e d st = [Call (InitOracleClient opts) (Some err)])"
proof (cases "load_client e d (start st)")
  case (Pair r w)
  show ?thesis
  proof (cases r)
    case (Inr u)
    with Pair run_returns [of "dbConfig e" d w] show ?thesis
      by (simp add: script_def bnd_def)
  next
    case (Inl err)
    with Pair have "\<exists>opts. trace w = [Call (InitOracleClient opts) (Some err)]"
      by (auto simp: load_client_def ret_def oracledb_initOracleClient_def call_driver_def
          outcome_def start_def split: option.splits if_splits prod.splits)
    with Pair Inl show ?thesis
      by (auto simp: script_trace_def script_def bnd_def)
  qed
qed

subsection \<open>The call sequences against the stub\<close>

lemma call_myproc_value:
  "call_myproc (rec_value n p) (out_bind k) =
     Some (Obj [(''outbv'', DbObject k [(''NAME'', Str n), (''POS'', Num (2 * p))])])"
  by (simp add: call_myproc_def rec_value_def out_bind_def fields_rectype_def instance_of_def
      myproc_def)

lemma call_myproc_instance:
  "call_myproc (DbObject k' [(''NAME'', Str n), (''POS'', Num p)]) (out_bind k) =
     Some (Obj [(''outbv'', DbObject k [(''NAME'', Str n), (''POS'', Num (2 * p))])])"
  by (simp add: call_myproc_def out_bind_def fields_rectype_def instance_of_def myproc_def)

lemma call_myproc_typed:
  "call_myproc (Obj [(''type'', t), (''val'', rec_value n p)]) (out_bind k) =
     Some (Obj [(''outbv'', DbObject k [(''NAME'', Str n), (''POS'', Num (2 * p))])])"
  by (simp add: call_myproc_def rec_value_def out_bind_def fields_rectype_def instance_of_def
      myproc_def)

lemma for_of_log:
  "for_of (map (\<lambda>r. Obj [(''outbv'', g r)]) rs)
     (\<lambda>b. bnd (lift (get_prop b ''outbv'')) console_log) w =
   (Inr (), w\<lparr>trace := trace w @ map (\<lambda>r. Log (g r)) rs\<rparr>)"
  by (induction rs arbitrary: w)
    (simp_all add: ret_def bnd_def lift_def console_log_def emit_def)

lemma stdout_logs: "stdout (map (\<lambda>r. Log (g r)) rs) = map g rs"
  by (induction rs) simp_all

lemma using_constructor_stub:
  "stdout (trace (snd (using_constructor (mock []) c k (rec_value n p) (start st)))) =
     [Str ''Using the constructor to create an object:'',
      DbObject k [(''NAME'', Str n), (''POS'', Num (2 * p))]]"
  by (simp add: using_constructor_def new_def connection_execute_def call_driver_def bnd_def
      console_log_def emit_def log_outbv_def lift_def outcome_def start_def
      mock_def inject_def stub_new_def stub_execute_def read_prop_def
      call_myproc_instance rec_value_def)

lemma binding_values_stub:
  "stdout (trace (snd (binding_values (mock []) c k (rec_value n p) (start st)))) =
     [Str (CHR 0x0A # ''Binding the record values directly:''),
      DbObject k [(''NAME'', Str n), (''POS'', Num (2 * p))]]"
  by (simp add: binding_values_def connection_execute_def call_driver_def bnd_def
      console_log_def emit_def log_outbv_def lift_def outcome_def start_def
      mock_def inject_def stub_execute_def read_prop_def call_myproc_typed)

lemma using_type_name_stub:
  "stdout (trace (snd (using_type_name (mock []) c k (rec_value n p) (start st)))) =
     [DbObject k [(''NAME'', Str n), (''POS'', Num (2 * p))]]"
  by (simp add: using_type_name_def connection_execute_def call_driver_def bnd_def
      console_log_def emit_def log_outbv_def lift_def outcome_def start_def
      mock_def inject_def stub_execute_def read_prop_def call_myproc_typed)

lemma stub_executeMany_rows:
  "stub_executeMany plsql (map ((\<lambda>v. Obj [(''inbv'', v)]) \<circ> (\<lambda>(n, p). rec_value n p)) rows)
     (Obj [(''bindDefs'', Obj [(''inbv'', Obj [(''type'', Cls k)]), (''outbv'', out_bind k)])]) =
   Inr \<lparr>outBinds = Arr (map (\<lambda>r.
     Obj [(''outbv'', case r of (n, p) \<Rightarrow> DbObject k [(''NAME'', Str n), (''POS'', Num (2 * p))])])
     rows)\<rparr>"
  by (simp add: stub_executeMany_def read_prop_def call_myproc_value list_all_iff
      split_beta comp_def)

lemma with_executeMany_stub:
  "stdout (trace (snd (with_executeMany (mock []) c k (map (\<lambda>(n, p). rec_value n p) rows)
      (start st)))) =
     Str (CHR 0x0A # ''Example with executeMany():'') #
     map (\<lambda>(n, p). DbObject k [(''NAME'', Str n), (''POS'', Num (2 * p))]) rows"
  by (simp add: with_executeMany_def connection_executeMany_def call_driver_def bnd_def
      console_log_def emit_def lift_def outcome_def start_def
      mock_def inject_def stub_executeMany_rows for_of_log stdout_append stdout_logs
      del: for_of.simps)

subsection \<open>A run on which the calls resolve\<close>

lemma stdout_caught: "stdout (caught k r) = []"
  by (cases r) (simp_all add: caught_def)

lemma create_package_states:
  assumes "execute d c (stmts ! 0) Undefined (drv w) = (r1, s2)"
    and "execute d c (stmts ! 1) Undefined s2 = (r2, s3)"
  shows "create_package d c w =
     (Inr (), w\<lparr>drv := s3,
               trace := trace w @ caught (Execute c (stmts ! 0) Undefined) (outcome r1) @
                 caught (Execute c (stmts ! 1) Undefined) (outcome r2)\<rparr>)"
proof -
  have "create_package d c w =
     for_of [stmts ! 0, stmts ! 1] (\<lambda>s.
       try_catch (bnd (connection_execute d c s Undefined) (\<lambda>r. ret ())) console_error) w"
    unfolding create_package_def using stmts_two by metis
  with assms show ?thesis
    by (simp add: bnd_def try_ddl ret_def)
qed

lemma call_sequences_resolved:
  assumes "newDbObject d k (rec_value ''Ship'' 12) (drv w) = (Inr obj, s5)"
    and "execute d c plsql (Obj [(''inbv'', obj), (''outbv'', out_bind k)]) s5 = (Inr res1, s6)"
    and "execute d c plsql
           (Obj [(''inbv'', Obj [(''type'', Cls k), (''val'', rec_value ''Plane'' 34)]),
                 (''outbv'', out_bind k)]) s6 = (Inr res2, s7)"
    and "execute d c plsql
           (Obj [(''inbv'', Obj [(''type'', Str ''RECTEST.RECTYPE''), (''val'', rec_value ''Car'' 56)]),
                 (''outbv'', out_bind k)]) s7 = (Inr res3, s8)"
    and "executeMany d c plsql
           [Obj [(''inbv'', rec_value ''Train'' 78)], Obj [(''inbv'', rec_value ''Bike'' 83)]]
           (Obj [(''bindDefs'', Obj [(''inbv'', Obj [(''type'', Cls k)]), (''outbv'', out_bind k)])])
           s8 = (Inr res4, s9)"
    and "get_prop (outBinds res1) ''outbv'' = Inr o1"
    and "get_prop (outBinds res2) ''outbv'' = Inr o2"
    and "get_prop (outBinds res3) ''outbv'' = Inr o3"
    and "outBinds res4 = Arr [b1, b2]"
    and "get_prop b1 ''outbv'' = Inr p1"
    and "get_prop b2 ''outbv'' = Inr p2"
  shows "\<exists>w'. call_sequences d c k w = (Inr (), w') \<and> connection w' = connection w \<and>
     stdout (trace w') = stdout (trace w) @
       [Str ''Using the constructor to create an object:'', o1,
        Str (CHR 0x0A # ''Binding the record values directly:''), o2, o3,
        Str (CHR 0x0A # ''Example with executeMany():''), p1, p2]"
  using assms
  by (simp add: call_sequences_def using_constructor_def binding_values_def using_type_name_def
      with_executeMany_def log_outbv_def bnd_def ret_def lift_def console_log_def emit_def
      call_driver_def outcome_def new_def connection_execute_def connection_executeMany_def
      stdout_append)

section \<open>Properties of the script\<close>

subsection \<open>The connection\<close>

text \<open>
  Claim C3. On every run on which \<open>getConnection\<close> resolves to a connection \<open>c\<close>,
  whatever any later driver call does, \<open>close\<close> is called exactly once, on \<open>c\<close>.
\<close>

theorem connection_closed_once:
  assumes "getConnection d cfg st = (Inr c, st')"
  shows "closed_connections (run_trace cfg d st) = [c]"
proof -
  from run_shape [of d cfg "start st" c st'] assms obtain w' r2 rk main rc where
      t: "trace (snd (run cfg d (start st))) = Call (GetConnection cfg) None #
       caught (Execute c (stmts ! 0) Undefined)
         (outcome (fst (execute d c (stmts ! 0) Undefined st'))) @
       caught (Execute c (stmts ! 1) Undefined) r2 @
       Call (GetDbObjectClass c ''RECTEST.RECTYPE'') rk # main @ caught (Close c) rc"
      and m: "case rk of
        Some e \<Rightarrow> main = [LogError e]
      | None \<Rightarrow> list_all (\<lambda>ev. sequence_event ev \<or> (\<exists>e. ev = LogError e)) main \<and>
          errors_logged main"
    by (auto simp: start_def)
  have "closed_connections main = []"
    using m by (cases rk) (simp_all add: sequence_events_closed)
  then show ?thesis
    unfolding run_trace_def t
    by (auto simp: closed_connections_append caught_def split: option.splits)
qed

theorem connection_closed_once_witness:
  "getConnection (mock [5]) Undefined 0 = (Inr (Connection 1), 1) \<and>
   closed_connections (run_trace Undefined (mock [5]) 0) = [Connection 1]"
proof -
  have h: "getConnection (mock [5]) Undefined 0 = (Inr (Connection 1), 1)"
    by (simp add: mock_def inject_def)
  from connection_closed_once [OF h] h show ?thesis by simp
qed

text \<open>
  Claim C4. When \<open>getConnection\<close> rejects, the run consists of that call and the
  logging of its error: no statement is executed, no class is fetched, no procedure is
  called, and \<open>close\<close> is not called.
\<close>

theorem failed_connection_stops:
  assumes "getConnection d cfg st = (Inl e, st')"
  shows "run_trace cfg d st = [Call (GetConnection cfg) (Some e), LogError e]"
  using run_no_connection [of d cfg "start st" e st'] assms
  by (simp add: run_trace_def start_def)

theorem failed_connection_stops_witness:
  "getConnection (mock [0]) Undefined 0 = (Inl (Error ''getConnection''), 1) \<and>
   run_trace Undefined (mock [0]) 0 =
     [Call (GetConnection Undefined) (Some (Error ''getConnection'')),
      LogError (Error ''getConnection'')]"
proof -
  have h: "getConnection (mock [0]) Undefined 0 = (Inl (Error ''getConnection''), 1)"
    by (simp add: mock_def inject_def)
  from failed_connection_stops [OF h] h show ?thesis by simp
qed

subsection \<open>Errors\<close>

text \<open>
  Claim C5. With a connection acquired, when the first statement of the setup (the
  package specification) is rejected, its error is logged and the second statement (the
  package body) is executed all the same; the second statement's error, if any, is
  logged in turn, and the run goes on to fetch the record class.
\<close>

theorem setup_statements_independent:
  assumes "getConnection d cfg st = (Inr c, st1)"
    and "execute d c (stmts ! 0) Undefined st1 = (Inl e, st2)"
  shows "\<exists>r2 rk rest. run_trace cfg d st =
     [Call (GetConnection cfg) None,
      Call (Execute c (stmts ! 0) Undefined) (Some e), LogError e] @
     caught (Execute c (stmts ! 1) Undefined) r2 @
     Call (GetDbObjectClass c ''RECTEST.RECTYPE'') rk # rest"
proof -
  from run_shape [of d cfg "start st" c st1] assms(1) obtain w' r2 rk main rc where
      "trace (snd (run cfg d (start st))) = Call (GetConnection cfg) None #
       caught (Execute c (stmts ! 0) Undefined)
         (outcome (fst (execute d c (stmts ! 0) Undefined st1))) @
       caught (Execute c (stmts ! 1) Undefined) r2 @
       Call (GetDbObjectClass c ''RECTEST.RECTYPE'') rk # main @ caught (Close c) rc"
    by (auto simp: start_def)
  with assms(2) show ?thesis
    by (simp add: run_trace_def outcome_def caught_def)
qed

theorem setup_statements_independent_witness:
  "getConnection (mock [1]) Undefined 0 = (Inr (Connection 1), 1) \<and>
   execute (mock [1]) (Connection 1) (stmts ! 0) Undefined 1 = (Inl (Error ''execute''), 2) \<and>
   (\<exists>r2 rk rest. run_trace Undefined (mock [1]) 0 =
     [Call (GetConnection Undefined) None,
      Call (Execute (Connection 1) (stmts ! 0) Undefined) (Some (Error ''execute'')),
      LogError (Error ''execute'')] @
     caught (Execute (Connection 1) (stmts ! 1) Undefined) r2 @
     Call (GetDbObjectClass (Connection 1) ''RECTEST.RECTYPE'') rk # rest)"
proof -
  have h1: "getConnection (mock [1]) Undefined 0 = (Inr (Connection 1), 1)"
    by (simp add: mock_def inject_def)
  have h2: "execute (mock [1]) (Connection 1) (stmts ! 0) Undefined 1 = (Inl (Error ''execute''), 2)"
    by (simp add: mock_def inject_def)
  from setup_statements_independent [OF h1 h2] h1 h2 show ?thesis by simp
qed

text \<open>
  Claim C6. For every driver, in every state, \<open>run\<close> returns normally. In the trace of
  a run every rejected driver call is followed at once by \<open>console.error\<close> of its
  error, and an error thrown by the body of the \<open>try\<close> block is logged.
\<close>

theorem run_never_rejects:
  "fst (run cfg d w) = Inr () \<and> errors_logged (run_trace cfg d st) \<and>
   (\<forall>e. fst (body cfg d (start st)) = Inl e \<longrightarrow> LogError e \<in> set (run_trace cfg d st))"
proof (intro conjI)
  show "fst (run cfg d w) = Inr ()" by (rule run_returns)
  obtain r st1 where gc: "getConnection d cfg st = (r, st1)"
    by (cases "getConnection d cfg st")
  have s: "start st\<lparr>connection := None\<rparr> = start st" "drv (start st) = st" "trace (start st) = []"
    by (simp_all add: start_def)
  show "errors_logged (run_trace cfg d st)"
  proof (cases r)
    case (Inl e)
    with gc run_no_connection [of d cfg "start st" e st1] show ?thesis
      by (simp add: run_trace_def s)
  next
    case (Inr c)
    with gc run_shape [of d cfg "start st" c st1] obtain w' r2 rk main rc where
      t: "trace (snd (run cfg d (start st))) = Call (GetConnection cfg) None #
       caught (Execute c (stmts ! 0) Undefined)
         (outcome (fst (execute d c (stmts ! 0) Undefined st1))) @
       caught (Execute c (stmts ! 1) Undefined) r2 @
       Call (GetDbObjectClass c ''RECTEST.RECTYPE'') rk # main @ caught (Close c) rc"
      and m: "case rk of
        Some e \<Rightarrow> main = [LogError e]
      | None \<Rightarrow> list_all (\<lambda>ev. sequence_event ev \<or> (\<exists>e. ev = LogError e)) main \<and>
          errors_logged main"
      by (auto simp: s)
    have c: "errors_logged (caught (Close c) rc)"
      using errors_logged_caught [of "Close c" rc "[]"] by simp
    have "errors_logged (Call (GetDbObjectClass c ''RECTEST.RECTYPE'') rk # main @ caught (Close c) rc)"
      using m c by (cases rk) (simp_all add: errors_logged_append)
    then show ?thesis
      unfolding run_trace_def t by (simp add: errors_logged_caught)
  qed
  show "\<forall>e. fst (body cfg d (start st)) = Inl e \<longrightarrow> LogError e \<in> set (run_trace cfg d st)"
  proof (intro allI impI)
    fix e assume b: "fst (body cfg d (start st)) = Inl e"
    show "LogError e \<in> set (run_trace cfg d st)"
    proof (cases r)
      case (Inl e')
      with gc have "fst (body cfg d (start st)) = Inl e'"
        by (simp add: body_def bnd_def oracledb_getConnection_def call_driver_def s)
      with b Inl gc run_no_connection [of d cfg "start st" e st1] show ?thesis
        by (simp add: run_trace_def s)
    next
      case (Inr c)
      with gc run_shape [of d cfg "start st" c st1] b obtain w' r2 rk main rc where
        t: "trace (snd (run cfg d (start st))) = Call (GetConnection cfg) None #
         caught (Execute c (stmts ! 0) Undefined)
           (outcome (fst (execute d c (stmts ! 0) Undefined st1))) @
         caught (Execute c (stmts ! 1) Undefined) r2 @
         Call (GetDbObjectClass c ''RECTEST.RECTYPE'') rk # main @ caught (Close c) rc"
        and m: "main \<noteq> []" "last main = LogError e"
        by (auto simp: s)
      from m have "LogError e \<in> set main" by (metis last_in_set)
      then show ?thesis unfolding run_trace_def t by simp
    qed
  qed
qed

theorem run_never_rejects_witness:
  "fst (run Undefined (mock [1, 6, 7]) (start 0)) = Inr () \<and>
   errors_logged (run_trace Undefined (mock [1, 6, 7]) 0) \<and>
   fst (body Undefined (mock [1, 6, 7]) (start 0)) = Inl (Error ''execute'') \<and>
   LogError (Error ''execute'') \<in> set (run_trace Undefined (mock [1, 6, 7]) 0)"
proof -
  have b: "fst (body Undefined (mock [1, 6, 7]) (start 0)) = Inl (Error ''execute'')"
    by code_simp
  from run_never_rejects [of Undefined "mock [1, 6, 7]" "start 0" 0] b show ?thesis by blast
qed

text \<open>
  Claim C7. When \<open>close\<close> rejects, the run still returns normally; the trace ends with
  that call and the logging of its error; everything logged before stays: every earlier
  rejected call is followed by its logged error, and the error thrown by the body of the
  \<open>try\<close> block, if any, is logged before \<open>close\<close> is called.
\<close>

theorem close_error_contained:
  assumes "Call (Close c) (Some e) \<in> set (run_trace cfg d st)"
  shows "fst (run cfg d (start st)) = Inr () \<and>
    (\<exists>pre. run_trace cfg d st = pre @ [Call (Close c) (Some e), LogError e] \<and>
       errors_logged pre \<and>
       (\<forall>e1. fst (body cfg d (start st)) = Inl e1 \<longrightarrow> LogError e1 \<in> set pre))"
proof -
  obtain r st1 where gc: "getConnection d cfg st = (r, st1)"
    by (cases "getConnection d cfg st")
  have s: "start st\<lparr>connection := None\<rparr> = start st" "drv (start st) = st" "trace (start st) = []"
    by (simp_all add: start_def)
  show ?thesis
  proof (cases r)
    case (Inl e')
    with gc run_no_connection [of d cfg "start st" e' st1] assms show ?thesis
      by (simp add: run_trace_def s)
  next
    case (Inr c')
    with gc run_shape [of d cfg "start st" c' st1] obtain w' r2 rk main rc where
      t: "trace (snd (run cfg d (start st))) = Call (GetConnection cfg) None #
       caught (Execute c' (stmts ! 0) Undefined)
         (outcome (fst (execute d c' (stmts ! 0) Undefined st1))) @
       caught (Execute c' (stmts ! 1) Undefined) r2 @
       Call (GetDbObjectClass c' ''RECTEST.RECTYPE'') rk # main @ caught (Close c') rc"
      and m: "case rk of
        Some e \<Rightarrow> main = [LogError e]
      | None \<Rightarrow> list_all (\<lambda>ev. sequence_event ev \<or> (\<exists>e. ev = LogError e)) main \<and>
          errors_logged main"
      and th: "\<forall>e. fst (body cfg d (start st)) = Inl e \<longrightarrow> main \<noteq> [] \<and> last main = LogError e"
      by (auto simp: s)
    define pre where "pre = Call (GetConnection cfg) None #
       caught (Execute c' (stmts ! 0) Undefined)
         (outcome (fst (execute d c' (stmts ! 0) Undefined st1))) @
       caught (Execute c' (stmts ! 1) Undefined) r2 @
       Call (GetDbObjectClass c' ''RECTEST.RECTYPE'') rk # main"
    have nm: "Call (Close c) (Some e) \<notin> set main"
      using m by (cases rk) (auto simp: sequence_events_close)
    have "Call (Close c) (Some e) \<in> set (caught (Close c') rc)"
      using assms nm unfolding run_trace_def t
      by (auto simp: caught_def split: option.splits)
    then have rc: "c' = c" "rc = Some e"
      by (auto simp: caught_def split: option.splits)
    have t': "run_trace cfg d st = pre @ [Call (Close c) (Some e), LogError e]"
      unfolding run_trace_def t pre_def using rc by (simp add: caught_def)
    have "errors_logged (Call (GetDbObjectClass c' ''RECTEST.RECTYPE'') rk # main)"
      using m by (cases rk) simp_all
    then have el: "errors_logged pre"
      unfolding pre_def by (simp add: errors_logged_caught)
    have "\<forall>e1. fst (body cfg d (start st)) = Inl e1 \<longrightarrow> LogError e1 \<in> set pre"
    proof (intro allI impI)
      fix e1 assume "fst (body cfg d (start st)) = Inl e1"
      with th have "main \<noteq> []" "last main = LogError e1" by auto
      then have "LogError e1 \<in> set main" by (metis last_in_set)
      then show "LogError e1 \<in> set pre" unfolding pre_def by simp
    qed
    with t' el run_returns [of cfg d "start st"] show ?thesis by blast
  qed
qed

theorem close_error_contained_witness:
  "Call (Close (Connection 1)) (Some (Error ''close'')) \<in> set (run_trace Undefined (mock [1, 6, 7]) 0) \<and>
   fst (body Undefined (mock [1, 6, 7]) (start 0)) = Inl (Error ''execute'') \<and>
   fst (run Undefined (mock [1, 6, 7]) (start 0)) = Inr () \<and>
   (\<exists>pre. run_trace Undefined (mock [1, 6, 7]) 0 =
      pre @ [Call (Close (Connection 1)) (Some (Error ''close'')), LogError (Error ''close'')] \<and>
      errors_logged pre \<and> LogError (Error ''execute'') \<in> set pre)"
proof -
  have h: "Call (Close (Connection 1)) (Some (Error ''close'')) \<in> set (run_trace Undefined (mock [1, 6, 7]) 0)"
    by code_simp
  have b: "fst (body Undefined (mock [1, 6, 7]) (start 0)) = Inl (Error ''execute'')"
    by code_simp
  from close_error_contained [OF h] h b show ?thesis by blast
qed

text \<open>
  Claim C8. When fetching the record class is rejected, none of the four call sequences
  is started (no constructor call, no \<open>execute\<close> of the procedure call, no
  \<open>executeMany\<close>), the error is logged, \<open>close\<close> is called exactly once on the
  connection, and the run returns normally.
\<close>

theorem class_failure_skips_calls:
  assumes "Call (GetDbObjectClass c n) (Some e) \<in> set (run_trace cfg d st)"
  shows "procedure_calls (run_trace cfg d st) = [] \<and>
    LogError e \<in> set (run_trace cfg d st) \<and>
    closed_connections (run_trace cfg d st) = [c] \<and>
    fst (run cfg d (start st)) = Inr ()"
proof -
  obtain r st1 where gc: "getConnection d cfg st = (r, st1)"
    by (cases "getConnection d cfg st")
  have s: "start st\<lparr>connection := None\<rparr> = start st" "drv (start st) = st" "trace (start st) = []"
    by (simp_all add: start_def)
  show ?thesis
  proof (cases r)
    case (Inl e')
    with gc run_no_connection [of d cfg "start st" e' st1] assms show ?thesis
      by (simp add: run_trace_def s)
  next
    case (Inr c')
    with gc run_shape [of d cfg "start st" c' st1] obtain w' r2 rk main rc where
      t: "trace (snd (run cfg d (start st))) = Call (GetConnection cfg) None #
       caught (Execute c' (stmts ! 0) Undefined)
         (outcome (fst (execute d c' (stmts ! 0) Undefined st1))) @
       caught (Execute c' (stmts ! 1) Undefined) r2 @
       Call (GetDbObjectClass c' ''RECTEST.RECTYPE'') rk # main @ caught (Close c') rc"
      and m: "case rk of
        Some e \<Rightarrow> main = [LogError e]
      | None \<Rightarrow> list_all (\<lambda>ev. sequence_event ev \<or> (\<exists>e. ev = LogError e)) main \<and>
          errors_logged main"
      by (auto simp: s)
    have "rk \<noteq> None"
    proof
      assume n: "rk = None"
      with m have "Call (GetDbObjectClass c n) (Some e) \<notin> set main"
        by (simp add: sequence_events_getclass)
      with assms n show False
        unfolding run_trace_def t by (auto simp: caught_def split: option.splits)
    qed
    then obtain e' where rk: "rk = Some e'" by auto
    with m have main: "main = [LogError e']" by simp
    from assms have "c' = c \<and> e' = e"
      unfolding run_trace_def t rk main by (auto simp: caught_def split: option.splits)
    then show ?thesis
      unfolding run_trace_def t rk main using run_returns [of cfg d "start st"]
      by (simp add: procedure_calls_append closed_connections_append caught_def stmts_not_plsql
          stmts_not_plsql [simplified] split: option.splits)
  qed
qed

theorem class_failure_skips_calls_witness:
  "Call (GetDbObjectClass (Connection 1) ''RECTEST.RECTYPE'') (Some (Error ''getDbObjectClass''))
     \<in> set (run_trace Undefined (mock [3]) 0) \<and>
   procedure_calls (run_trace Undefined (mock [3]) 0) = [] \<and>
   LogError (Error ''getDbObjectClass'') \<in> set (run_trace Undefined (mock [3]) 0) \<and>
   closed_connections (run_trace Undefined (mock [3]) 0) = [Connection 1] \<and>
   fst (run Undefined (mock [3]) (start 0)) = Inr ()"
proof -
  have h: "Call (GetDbObjectClass (Connection 1) ''RECTEST.RECTYPE'') (Some (Error ''getDbObjectClass''))
     \<in> set (run_trace Undefined (mock [3]) 0)"
    by code_simp
  from class_failure_skips_calls [OF h] h show ?thesis by blast
qed

subsection \<open>The client libraries\<close>

text \<open>
  Claim C10. In a run of the whole script \<open>initOracleClient\<close> is called at most once;
  it is called exactly when the platform is \<open>win32\<close> or \<open>darwin\<close> and
  \<open>fs.existsSync\<close> holds of that platform's library path; and a call, if there is
  one, is the first event of the script, before \<open>run\<close> makes its first driver call.
\<close>

theorem client_loaded_once:
  "length (client_inits (script_trace e d st)) \<le> 1 \<and>
   (client_inits (script_trace e d st) \<noteq> [] \<longleftrightarrow>
      (platform e = ''win32'' \<or> platform e = ''darwin'') \<and>
      (\<exists>p. libPath e = Some p \<and> existsSync e p)) \<and>
   client_inits (tl (script_trace e d st)) = []"
proof -
  from script_trace_cases [of e d st] obtain evs where
    evs: "client_inits evs = []" and
    t: "script_trace e d st =
       (case libPath e of
          None \<Rightarrow> evs
        | Some p \<Rightarrow>
            if existsSync e p
            then Call (InitOracleClient (Obj [(''libDir'', Str p)]))
                   (outcome (fst (initOracleClient d (Obj [(''libDir'', Str p)]) st))) # evs
            else evs)"
    by blast
  have tl: "client_inits (tl evs) = []"
    using evs by (induction evs rule: client_inits.induct) simp_all
  show ?thesis
    unfolding t using evs tl libPath_platform [of e]
    by (auto split: option.splits)
qed

theorem client_loaded_once_witness:
  "length (client_inits (script_trace
      \<lparr>platform = ''darwin'', HOME = Some ''/Users/me'',
       existsSync = (\<lambda>p. p = ''/Users/me/Downloads/instantclient_19_8''),
       dbConfig = Undefined\<rparr> (mock []) 0)) = 1 \<and>
   client_inits (tl (script_trace
      \<lparr>platform = ''darwin'', HOME = Some ''/Users/me'',
       existsSync = (\<lambda>p. p = ''/Users/me/Downloads/instantclient_19_8''),
       dbConfig = Undefined\<rparr> (mock []) 0)) = []"
proof -
  let ?e = "\<lparr>platform = ''darwin'', HOME = Some ''/Users/me'',
       existsSync = (\<lambda>p. p = ''/Users/me/Downloads/instantclient_19_8''),
       dbConfig = Undefined\<rparr>"
  have p: "libPath ?e = Some ''/Users/me/Downloads/instantclient_19_8''"
    by (simp add: libPath_def)
  from client_loaded_once [of ?e "mock []" 0] p
  have "length (client_inits (script_trace ?e (mock []) 0)) \<le> 1"
    and "client_inits (script_trace ?e (mock []) 0) \<noteq> []"
    and "client_inits (tl (script_trace ?e (mock []) 0)) = []"
    by simp_all
  then show ?thesis
    by (cases "client_inits (script_trace ?e (mock []) 0)") simp_all
qed

subsection \<open>The four binding styles, against the stub\<close>

text \<open>
  Claim C1. Against the stub, which applies \<open>myproc\<close>, each of the four call
  sequences prints for the input record \<open>{NAME: n, POS: p}\<close> the record bound to
  \<open>outbv\<close>, with \<open>NAME\<close> equal to \<open>n\<close> and \<open>POS\<close> equal to \<open>2 * p\<close>; the
  batched sequence does so for each of its rows. \<open>POS\<close> ranges over the integers.
\<close>

theorem stub_doubles_position:
  "stdout (trace (snd (using_constructor (mock []) c k (rec_value n p) (start st)))) =
     [Str ''Using the constructor to create an object:'',
      DbObject k [(''NAME'', Str n), (''POS'', Num (2 * p))]] \<and>
   stdout (trace (snd (binding_values (mock []) c k (rec_value n p) (start st)))) =
     [Str (CHR 0x0A # ''Binding the record values directly:''),
      DbObject k [(''NAME'', Str n), (''POS'', Num (2 * p))]] \<and>
   stdout (trace (snd (using_type_name (mock []) c k (rec_value n p) (start st)))) =
     [DbObject k [(''NAME'', Str n), (''POS'', Num (2 * p))]] \<and>
   stdout (trace (snd (with_executeMany (mock []) c k (map (\<lambda>(n, p). rec_value n p) rows)
      (start st)))) =
     Str (CHR 0x0A # ''Example with executeMany():'') #
     map (\<lambda>(n, p). DbObject k [(''NAME'', Str n), (''POS'', Num (2 * p))]) rows"
  using using_constructor_stub binding_values_stub using_type_name_stub with_executeMany_stub
  by blast

theorem stub_doubles_position_witness:
  "stdout (trace (snd (using_constructor (mock []) (Connection 1) (DbObjectClass ''RECTEST.RECTYPE'')
      (rec_value ''Ship'' 12) (start 0)))) =
     [Str ''Using the constructor to create an object:'',
      DbObject (DbObjectClass ''RECTEST.RECTYPE'') [(''NAME'', Str ''Ship''), (''POS'', Num 24)]]"
  using stub_doubles_position [of "Connection 1" "DbObjectClass ''RECTEST.RECTYPE''" "''Ship''" 12 0 "[]"]
  by simp

text \<open>
  Claim C2. Against the stub, the batched sequence with the rows
  \<open>{NAME: 'Train', POS: 78}\<close> and \<open>{NAME: 'Bike', POS: 83}\<close> prints the records
  \<open>{NAME: 'Train', POS: 156}\<close> and \<open>{NAME: 'Bike', POS: 166}\<close> in that order; for
  any rows, the record printed at index \<open>i\<close> is the output for the input row at
  index \<open>i\<close>.
\<close>

theorem batch_preserves_order:
  "stdout (trace (snd (with_executeMany (mock []) c k
      [rec_value ''Train'' 78, rec_value ''Bike'' 83] (start st)))) =
     [Str (CHR 0x0A # ''Example with executeMany():''),
      DbObject k [(''NAME'', Str ''Train''), (''POS'', Num 156)],
      DbObject k [(''NAME'', Str ''Bike''), (''POS'', Num 166)]] \<and>
   (i < length rows \<longrightarrow>
      tl (stdout (trace (snd (with_executeMany (mock []) c k
        (map (\<lambda>(n, p). rec_value n p) rows) (start st))))) ! i =
      DbObject k [(''NAME'', Str (fst (rows ! i))), (''POS'', Num (2 * snd (rows ! i)))])"
proof
  show "stdout (trace (snd (with_executeMany (mock []) c k
      [rec_value ''Train'' 78, rec_value ''Bike'' 83] (start st)))) =
     [Str (CHR 0x0A # ''Example with executeMany():''),
      DbObject k [(''NAME'', Str ''Train''), (''POS'', Num 156)],
      DbObject k [(''NAME'', Str ''Bike''), (''POS'', Num 166)]]"
    using with_executeMany_stub [of c k "[(''Train'', 78), (''Bike'', 83)]" st] by simp
  show "i < length rows \<longrightarrow>
      tl (stdout (trace (snd (with_executeMany (mock []) c k
        (map (\<lambda>(n, p). rec_value n p) rows) (start st))))) ! i =
      DbObject k [(''NAME'', Str (fst (rows ! i))), (''POS'', Num (2 * snd (rows ! i)))]"
    by (simp add: with_executeMany_stub split_beta)
qed

theorem batch_preserves_order_witness:
  "(1::nat) < length [(''Train'', 78::int), (''Bike'', 83)] \<and>
   tl (stdout (trace (snd (with_executeMany (mock []) (Connection 1) (DbObjectClass ''RECTEST.RECTYPE'')
        (map (\<lambda>(n, p). rec_value n p) [(''Train'', 78), (''Bike'', 83)]) (start 0))))) ! 1 =
      DbObject (DbObjectClass ''RECTEST.RECTYPE'') [(''NAME'', Str ''Bike''), (''POS'', Num 166)]"
  using batch_preserves_order [of "Connection 1" "DbObjectClass ''RECTEST.RECTYPE''" 0 1
      "[(''Train'', 78), (''Bike'', 83)]"]
  by simp

text \<open>
  Claim C9, as amended. For every driver: on a run on which the connection, the record
  class, the constructor, the three \<open>execute\<close> calls of the procedure and
  \<open>executeMany\<close> resolve, each \<open>execute\<close> result carries its \<open>outBinds\<close>, and
  \<open>executeMany\<close> resolves with one row of output binds for each of the two input
  rows, \<open>console.log\<close> prints the three labels and exactly five records, in this
  order: the \<open>outbv\<close> returned for Ship, for Plane and for Car, then those of the two
  rows returned for Train and Bike, in the order of the rows. The outcomes of the two
  setup statements and of \<open>close\<close> do not matter.
\<close>

theorem printed_records:
  assumes "getConnection d cfg st = (Inr c, s1)"
    and "execute d c (stmts ! 0) Undefined s1 = (r1, s2)"
    and "execute d c (stmts ! 1) Undefined s2 = (r2, s3)"
    and "getDbObjectClass d c ''RECTEST.RECTYPE'' s3 = (Inr k, s4)"
    and "newDbObject d k (rec_value ''Ship'' 12) s4 = (Inr obj, s5)"
    and "execute d c plsql (Obj [(''inbv'', obj), (''outbv'', out_bind k)]) s5 = (Inr res1, s6)"
    and "execute d c plsql
           (Obj [(''inbv'', Obj [(''type'', Cls k), (''val'', rec_value ''Plane'' 34)]),
                 (''outbv'', out_bind k)]) s6 = (Inr res2, s7)"
    and "execute d c plsql
           (Obj [(''inbv'', Obj [(''type'', Str ''RECTEST.RECTYPE''), (''val'', rec_value ''Car'' 56)]),
                 (''outbv'', out_bind k)]) s7 = (Inr res3, s8)"
    and "executeMany d c plsql
           [Obj [(''inbv'', rec_value ''Train'' 78)], Obj [(''inbv'', rec_value ''Bike'' 83)]]
           (Obj [(''bindDefs'', Obj [(''inbv'', Obj [(''type'', Cls k)]), (''outbv'', out_bind k)])])
           s8 = (Inr res4, s9)"
    and "get_prop (outBinds res1) ''outbv'' = Inr o1"
    and "get_prop (outBinds res2) ''outbv'' = Inr o2"
    and "get_prop (outBinds res3) ''outbv'' = Inr o3"
    and "outBinds res4 = Arr [b1, b2]"
    and "get_prop b1 ''outbv'' = Inr p1"
    and "get_prop b2 ''outbv'' = Inr p2"
  shows "stdout (run_trace cfg d st) =
       [Str ''Using the constructor to create an object:'', o1,
        Str (CHR 0x0A # ''Binding the record values directly:''), o2, o3,
        Str (CHR 0x0A # ''Example with executeMany():''), p1, p2]"
proof -
  define w1 where "w1 = \<lparr>drv = s1, trace = [Call (GetConnection cfg) None], connection = Some c\<rparr>"
  define w3 where "w3 = w1\<lparr>drv := s3,
      trace := trace w1 @ caught (Execute c (stmts ! 0) Undefined) (outcome r1) @
                 caught (Execute c (stmts ! 1) Undefined) (outcome r2)\<rparr>"
  define w4 where "w4 = w3\<lparr>drv := s4,
      trace := trace w3 @ [Call (GetDbObjectClass c ''RECTEST.RECTYPE'') None]\<rparr>"
  have cp: "create_package d c w1 = (Inr (), w3)"
    unfolding w3_def using assms(2,3) by (intro create_package_states) (simp_all add: w1_def)
  have out4: "stdout (trace w4) = []"
    by (simp add: w4_def w3_def w1_def stdout_append stdout_caught)
  have d4: "drv w4 = s4" "connection w4 = Some c"
    by (simp_all add: w4_def w3_def w1_def)
  have n4: "newDbObject d k (rec_value ''Ship'' 12) (drv w4) = (Inr obj, s5)"
    using assms(5) d4(1) by simp
  from call_sequences_resolved [OF n4 assms(6-15)]
  obtain w5 where cs: "call_sequences d c k w4 = (Inr (), w5)" and c5': "connection w5 = connection w4"
    and out5': "stdout (trace w5) = stdout (trace w4) @
       [Str ''Using the constructor to create an object:'', o1,
        Str (CHR 0x0A # ''Binding the record values directly:''), o2, o3,
        Str (CHR 0x0A # ''Example with executeMany():''), p1, p2]"
    by blast
  have c5: "connection w5 = Some c"
    using c5' d4(2) by simp
  have out5: "stdout (trace w5) =
       [Str ''Using the constructor to create an object:'', o1,
        Str (CHR 0x0A # ''Binding the record values directly:''), o2, o3,
        Str (CHR 0x0A # ''Example with executeMany():''), p1, p2]"
    using out5' out4 by simp
  have bd: "body cfg d (start st) = (Inr (), w5)"
    using assms(1,4) cp cs
    by (simp add: body_def bnd_def oracledb_getConnection_def connection_getDbObjectClass_def
        call_driver_def outcome_def start_def w1_def w3_def w4_def)
  have "run cfg d (start st) = cleanup d w5"
    using bd cleanup_run [OF c5, of d]
    by (simp add: run_def bnd_def try_finally_def try_catch_def start_def)
  with cleanup_run [OF c5, of d] out5 show ?thesis
    by (simp add: run_trace_def stdout_append stdout_caught)
qed

theorem printed_records_witness:
  "getConnection (mock []) Undefined 0 = (Inr (Connection 1), 1) \<and>
   getDbObjectClass (mock []) (Connection 1) ''RECTEST.RECTYPE'' 3 =
     (Inr (DbObjectClass ''RECTEST.RECTYPE''), 4) \<and>
   executeMany (mock []) (Connection 1) plsql
     [Obj [(''inbv'', rec_value ''Train'' 78)], Obj [(''inbv'', rec_value ''Bike'' 83)]]
     (Obj [(''bindDefs'', Obj [(''inbv'', Obj [(''type'', Cls (DbObjectClass ''RECTEST.RECTYPE''))]),
                               (''outbv'', out_bind (DbObjectClass ''RECTEST.RECTYPE''))])]) 8 =
     (Inr \<lparr>outBinds = Arr
        [Obj [(''outbv'', DbObject (DbObjectClass ''RECTEST.RECTYPE'')
                 [(''NAME'', Str ''Train''), (''POS'', Num 156)])],
         Obj [(''outbv'', DbObject (DbObjectClass ''RECTEST.RECTYPE'')
                 [(''NAME'', Str ''Bike''), (''POS'', Num 166)])]]\<rparr>, 9) \<and>
   stdout (run_trace Undefined (mock []) 0) =
     [Str ''Using the constructor to create an object:'',
      DbObject (DbObjectClass ''RECTEST.RECTYPE'') [(''NAME'', Str ''Ship''), (''POS'', Num 24)],
      Str (CHR 0x0A # ''Binding the record values directly:''),
      DbObject (DbObjectClass ''RECTEST.RECTYPE'') [(''NAME'', Str ''Plane''), (''POS'', Num 68)],
      DbObject (DbObjectClass ''RECTEST.RECTYPE'') [(''NAME'', Str ''Car''), (''POS'', Num 112)],
      Str (CHR 0x0A # ''Example with executeMany():''),
      DbObject (DbObjectClass ''RECTEST.RECTYPE'') [(''NAME'', Str ''Train''), (''POS'', Num 156)],
      DbObject (DbObjectClass ''RECTEST.RECTYPE'') [(''NAME'', Str ''Bike''), (''POS'', Num 166)]]"
proof -
  let ?c = "Connection 1"
  let ?k = "DbObjectClass ''RECTEST.RECTYPE''"
  let ?out = "\<lambda>n p. DbObject ?k [(''NAME'', Str n), (''POS'', Num p)]"
  let ?res = "\<lambda>n p. \<lparr>outBinds = Obj [(''outbv'', ?out n p)]\<rparr>"
  have h1: "getConnection (mock []) Undefined 0 = (Inr ?c, 1)"
    by (simp add: mock_def inject_def)
  have h2: "execute (mock []) ?c (stmts ! 0) Undefined 1 = (Inr \<lparr>outBinds = Undefined\<rparr>, 2)"
    by (simp add: mock_def inject_def stub_execute_def stmts_not_plsql)
  have h3: "execute (mock []) ?c (stmts ! 1) Undefined 2 = (Inr \<lparr>outBinds = Undefined\<rparr>, 3)"
    by (simp add: mock_def inject_def stub_execute_def stmts_not_plsql [simplified])
  have h4: "getDbObjectClass (mock []) ?c ''RECTEST.RECTYPE'' 3 = (Inr ?k, 4)"
    by (simp add: mock_def inject_def)
  have h5: "newDbObject (mock []) ?k (rec_value ''Ship'' 12) 4 = (Inr (?out ''Ship'' 12), 5)"
    by (simp add: mock_def inject_def stub_new_def rec_value_def)
  have h6: "execute (mock []) ?c plsql
      (Obj [(''inbv'', ?out ''Ship'' 12), (''outbv'', out_bind ?k)]) 5 = (Inr (?res ''Ship'' 24), 6)"
    by (simp add: mock_def inject_def stub_execute_def read_prop_def call_myproc_instance)
  have h7: "execute (mock []) ?c plsql
      (Obj [(''inbv'', Obj [(''type'', Cls ?k), (''val'', rec_value ''Plane'' 34)]),
            (''outbv'', out_bind ?k)]) 6 = (Inr (?res ''Plane'' 68), 7)"
    by (simp add: mock_def inject_def stub_execute_def read_prop_def call_myproc_typed)
  have h8: "execute (mock []) ?c plsql
      (Obj [(''inbv'', Obj [(''type'', Str ''RECTEST.RECTYPE''), (''val'', rec_value ''Car'' 56)]),
            (''outbv'', out_bind ?k)]) 7 = (Inr (?res ''Car'' 112), 8)"
    by (simp add: mock_def inject_def stub_execute_def read_prop_def call_myproc_typed)
  have h9: "executeMany (mock []) ?c plsql
      [Obj [(''inbv'', rec_value ''Train'' 78)], Obj [(''inbv'', rec_value ''Bike'' 83)]]
      (Obj [(''bindDefs'', Obj [(''inbv'', Obj [(''type'', Cls ?k)]), (''outbv'', out_bind ?k)])]) 8 =
      (Inr \<lparr>outBinds = Arr [Obj [(''outbv'', ?out ''Train'' 156)],
                              Obj [(''outbv'', ?out ''Bike'' 166)]]\<rparr>, 9)"
    by (simp add: mock_def inject_def stub_executeMany_def read_prop_def call_myproc_value)
  have g1: "get_prop (outBinds (?res ''Ship'' 24)) ''outbv'' = Inr (?out ''Ship'' 24)"
    and g2: "get_prop (outBinds (?res ''Plane'' 68)) ''outbv'' = Inr (?out ''Plane'' 68)"
    and g3: "get_prop (outBinds (?res ''Car'' 112)) ''outbv'' = Inr (?out ''Car'' 112)"
    and g4: "outBinds \<lparr>outBinds = Arr [Obj [(''outbv'', ?out ''Train'' 156)],
                              Obj [(''outbv'', ?out ''Bike'' 166)]]\<rparr> =
             Arr [Obj [(''outbv'', ?out ''Train'' 156)], Obj [(''outbv'', ?out ''Bike'' 166)]]"
    and g5: "get_prop (Obj [(''outbv'', ?out ''Train'' 156)]) ''outbv'' = Inr (?out ''Train'' 156)"
    and g6: "get_prop (Obj [(''outbv'', ?out ''Bike'' 166)]) ''outbv'' = Inr (?out ''Bike'' 166)"
    by simp_all
  from printed_records [OF h1 h2 h3 h4 h5 h6 h7 h8 h9 g1 g2 g3 g4 g5 g6] h1 h4 h9
  show ?thesis by (intro conjI)
qed

text \<open>
  Claim C9 as first stated asks only that every driver call succeeds. The driver
  \<open>no_rows\<close> rejects no call and raises no error, yet its \<open>executeMany\<close> returns no
  rows, and the run prints three records.
\<close>

theorem printed_records_counterexample:
  "rejected_calls (run_trace Undefined no_rows 0) = [] \<and>
   stderr (run_trace Undefined no_rows 0) = [] \<and>
   stdout (run_trace Undefined no_rows 0) =
     [Str ''Using the constructor to create an object:'',
      DbObject (DbObjectClass ''RECTEST.RECTYPE'') [(''NAME'', Str ''Ship''), (''POS'', Num 24)],
      Str (CHR 0x0A # ''Binding the record values directly:''),
      DbObject (DbObjectClass ''RECTEST.RECTYPE'') [(''NAME'', Str ''Plane''), (''POS'', Num 68)],
      DbObject (DbObjectClass ''RECTEST.RECTYPE'') [(''NAME'', Str ''Car''), (''POS'', Num 112)],
      Str (CHR 0x0A # ''Example with executeMany():'')]"
  by (simp add: run_trace_def run_def body_def cleanup_def call_sequences_def
      create_package_def using_constructor_def binding_values_def using_type_name_def
      with_executeMany_def log_outbv_def out_bind_def rec_value_def start_def bnd_def
      try_catch_def try_finally_def ret_def lift_def emit_def console_log_def console_error_def
      call_driver_def outcome_def oracledb_getConnection_def connection_execute_def
      connection_getDbObjectClass_def new_def connection_executeMany_def connection_close_def
      no_rows_def stub_execute_def stub_new_def call_myproc_def
      read_prop_def instance_of_def myproc_def fields_rectype_def plsql_def stmts_def)

end
